theory Spec2Isabelle
  imports Complex_Main
begin

section \<open>laser\_slam: the incremental estimator\<close>

text \<open>
  A shallow embedding of \<^verbatim>\<open>src/laser_slam/src/incremental_estimator.cpp\<close>.
  The class \<^verbatim>\<open>IncrementalEstimator\<close> becomes a record of its members, every
  member function a function from the state before the call to an outcome and the state
  after it. The libraries the class drives (the iSAM2 smoother of GTSAM, the laser
  tracks, the ICP matcher of libpointmatcher) are not part of the file: they are one
  record of functions, \<open>collaborators\<close>, that every operation takes as its first
  argument, so that each theorem holds for whatever these libraries compute.
  Logging (\<^verbatim>\<open>LOG\<close>), the timing by \<^verbatim>\<open>Clock\<close> and the printing of an update's
  result change nothing the class keeps and are left out.
\<close>

subsection \<open>Data\<close>

text \<open>
  \<^verbatim>\<open>gtsam::Expression<SE3>\<close>: a symbolic pose. The leaves are whatever a track
  hands out; \<^verbatim>\<open>kindr::minimal::inverse\<close> and \<^verbatim>\<open>kindr::minimal::compose\<close> build
  the inner nodes.
\<close>

datatype 'k expression =
    Leaf 'k
  | Inverse "'k expression"
  | Compose "'k expression" "'k expression"

text \<open>
  The noise models the constructor builds: \<^verbatim>\<open>Diagonal::Sigmas(v)\<close>, and
  \<^verbatim>\<open>Robust::Create(mEstimator::Cauchy::Create(k), base)\<close>. Floating-point data is
  never computed with in this file, so it is carried as rationals.
\<close>

datatype mEstimator = Cauchy rat

datatype noise_model =
    Diagonal_Sigmas "rat list"
  | Robust mEstimator noise_model

text \<open>\<^verbatim>\<open>ExpressionFactor<SE3>(noise, measured, expression)\<close>; a
  \<^verbatim>\<open>NonlinearFactorGraph\<close> is a list of factors.\<close>

datatype ('se3, 'k) factor =
  ExpressionFactor noise_model 'se3 "'k expression"

text \<open>\<^verbatim>\<open>RelativePose\<close>, a loop-closure candidate. The two times are signed 64-bit
  nanosecond counts that are only ever compared, the track ids are unsigned.\<close>

record 'se3 RelativePose =
  T_a_b :: 'se3
  time_a_ns :: int
  time_b_ns :: int
  track_id_a :: nat
  track_id_b :: nat

record LaserTrackParams =
  icp_configuration_file :: string

text \<open>
  Modelled from the spec: \<^verbatim>\<open>EstimatorParams\<close> is declared in a header that is not
  among the sources. The fields \<open>laser_track_params\<close>,
  \<open>add_m_estimator_on_loop_closures\<close>, \<open>loop_closure_noise_model\<close> (the sigma vector,
  here \<open>loop_closure_noise_model_sigmas\<close>), \<open>do_icp_step_on_loop_closures\<close> and
  \<open>loop_closures_sub_maps_radius\<close> are the ones the source file reads. The fields
  \<open>relinearize_skip\<close> and \<open>relinearize_threshold\<close> are the "relinearization skip
  count" and "relinearization threshold" that the specification lists among the
  construction-time options; the source file never reads them.
\<close>

record EstimatorParams =
  relinearize_skip :: nat
  relinearize_threshold :: rat
  loop_closure_noise_model_sigmas :: "rat list"
  add_m_estimator_on_loop_closures :: bool
  do_icp_step_on_loop_closures :: bool
  loop_closures_sub_maps_radius :: nat
  laser_track_params :: LaserTrackParams

text \<open>\<^verbatim>\<open>gtsam::ISAM2Params\<close>, the two settings the constructor touches.\<close>

record ISAM2Params =
  relinearizeSkip :: nat
  relinearizeThreshold :: rat

text \<open>The configuration of the ICP matcher after construction.\<close>

datatype icp_configuration = LoadedFromYaml string | Default_configuration

text \<open>
  How a call can end without returning. A failed glog \<^verbatim>\<open>CHECK_*\<close> aborts the
  process. \<^verbatim>\<open>laser_tracks_[i]\<close> is \<^verbatim>\<open>std::vector::operator[]\<close>, which has no
  bounds check: an index past the end is undefined behaviour, which the model records as
  \<open>Index_out_of_range\<close>. \<open>Icp_exception\<close> is an exception leaving
  \<^verbatim>\<open>icp_.compute\<close>.
\<close>

datatype fatal =
    CHECK_LT_failed
  | CHECK_GE_failed
  | CHECK_LE_failed
  | CHECK_EQ_failed
  | Index_out_of_range
  | Icp_exception

text \<open>
  The calls an operation makes on the shared objects, in program order: taking and
  releasing \<^verbatim>\<open>full_class_mutex_\<close> (the constructor and the destructor of a
  \<^verbatim>\<open>std::lock_guard\<close>), \<^verbatim>\<open>isam2_.update\<close> with its three arguments,
  \<^verbatim>\<open>isam2_.calculateEstimate\<close>, and \<^verbatim>\<open>updateFromGTSAMValues\<close> on the track at
  a position of \<^verbatim>\<open>laser_tracks_\<close>.
\<close>

datatype ('f, 'v) call =
    Mutex_lock
  | Mutex_unlock
  | Smoother_update "'f list" 'v "nat list"
  | Smoother_calculateEstimate
  | Track_updateFromGTSAMValues nat 'v

text \<open>
  The libraries behind the class. \<open>'b\<close> is the state of the smoother, \<open>'t\<close> a laser
  track, \<open>'v\<close> a \<^verbatim>\<open>gtsam::Values\<close>, \<open>'se3\<close> a rigid transformation, \<open>'k\<close> a leaf of
  a pose expression, \<open>'d\<close> a point cloud and \<open>'m\<close> a transformation matrix.
  \<open>ISAM2_update\<close> returns the field \<^verbatim>\<open>newFactorsIndices\<close> of the
  \<^verbatim>\<open>ISAM2Result\<close> with the new smoother; \<open>icp_compute\<close> returns \<open>None\<close> when the
  matcher throws; \<open>ifstream_good\<close> tells whether the file of that name can be read.
\<close>

record ('b, 't, 'v, 'se3, 'k, 'd, 'm) collaborators =
  new_ISAM2 :: "ISAM2Params \<Rightarrow> 'b"
  ISAM2_update :: "('se3, 'k) factor list \<Rightarrow> 'v \<Rightarrow> nat list \<Rightarrow> 'b \<Rightarrow> nat list \<times> 'b"
  ISAM2_calculateEstimate :: "'b \<Rightarrow> 'v"
  empty_Values :: 'v
  new_LaserTrack :: "LaserTrackParams \<Rightarrow> nat \<Rightarrow> 't"
  getMinTime :: "'t \<Rightarrow> int"
  getMaxTime :: "'t \<Rightarrow> int"
  buildSubMapAroundTime :: "'t \<Rightarrow> int \<Rightarrow> nat \<Rightarrow> 'd"
  getValueExpression :: "'t \<Rightarrow> int \<Rightarrow> 'k expression"
  updateFromGTSAMValues :: "'v \<Rightarrow> 't \<Rightarrow> 't"
  getTransformationMatrix :: "'se3 \<Rightarrow> 'm"
  icp_compute :: "icp_configuration \<Rightarrow> 'd \<Rightarrow> 'd \<Rightarrow> 'm \<Rightarrow> 'm option"
  convertTransformationMatrixToSE3 :: "'m \<Rightarrow> 'se3"
  ifstream_good :: "string \<Rightarrow> bool"

text \<open>
  The members of \<^verbatim>\<open>IncrementalEstimator\<close> (the trailing underscore of each name
  dropped), and \<open>calls\<close>, the record of the calls made so far on the shared objects.
\<close>

record ('b, 't, 'v, 'se3, 'k) IncrementalEstimator =
  params :: EstimatorParams
  n_laser_slam_workers :: nat
  isam2 :: 'b
  laser_tracks :: "'t list"
  loop_closure_noise_model :: noise_model
  icp :: icp_configuration
  factor_indice_to_remove :: nat
  calls :: "(('se3, 'k) factor, 'v) call list"

subsection \<open>Calls on the shared objects\<close>

definition lock_guard ::
  "('b, 't, 'v, 'se3, 'k) IncrementalEstimator \<Rightarrow> ('b, 't, 'v, 'se3, 'k) IncrementalEstimator"
where
  "lock_guard s = s\<lparr>calls := calls s @ [Mutex_lock]\<rparr>"

definition unlock_guard ::
  "('b, 't, 'v, 'se3, 'k) IncrementalEstimator \<Rightarrow> ('b, 't, 'v, 'se3, 'k) IncrementalEstimator"
where
  "unlock_guard s = s\<lparr>calls := calls s @ [Mutex_unlock]\<rparr>"

text \<open>\<^verbatim>\<open>isam2_.update(new_factors, new_values, factor_indices_to_remove)\<close>.\<close>

definition update ::
  "('b, 't, 'v, 'se3, 'k, 'd, 'm) collaborators \<Rightarrow> ('se3, 'k) factor list \<Rightarrow> 'v \<Rightarrow> nat list
     \<Rightarrow> ('b, 't, 'v, 'se3, 'k) IncrementalEstimator
     \<Rightarrow> nat list \<times> ('b, 't, 'v, 'se3, 'k) IncrementalEstimator"
where
  "update env new_factors new_values to_remove s =
     (case ISAM2_update env new_factors new_values to_remove (isam2 s) of
        (newFactorsIndices, b) \<Rightarrow>
          (newFactorsIndices,
           s\<lparr>isam2 := b,
             calls := calls s @ [Smoother_update new_factors new_values to_remove]\<rparr>))"

text \<open>\<^verbatim>\<open>isam2_.update()\<close>: every argument at its default, an empty graph, empty
  values and nothing to remove.\<close>

definition update_noop ::
  "('b, 't, 'v, 'se3, 'k, 'd, 'm) collaborators \<Rightarrow> ('b, 't, 'v, 'se3, 'k) IncrementalEstimator
     \<Rightarrow> ('b, 't, 'v, 'se3, 'k) IncrementalEstimator"
where
  "update_noop env s = snd (update env [] (empty_Values env) [] s)"

definition calculateEstimate ::
  "('b, 't, 'v, 'se3, 'k, 'd, 'm) collaborators \<Rightarrow> ('b, 't, 'v, 'se3, 'k) IncrementalEstimator
     \<Rightarrow> 'v \<times> ('b, 't, 'v, 'se3, 'k) IncrementalEstimator"
where
  "calculateEstimate env s =
     (ISAM2_calculateEstimate env (isam2 s),
      s\<lparr>calls := calls s @ [Smoother_calculateEstimate]\<rparr>)"

text \<open>\<^verbatim>\<open>laser_tracks_[i]\<close>.\<close>

definition track_at ::
  "('b, 't, 'v, 'se3, 'k) IncrementalEstimator \<Rightarrow> nat \<Rightarrow> 't option"
where
  "track_at s i = (if i < length (laser_tracks s) then Some (laser_tracks s ! i) else None)"

text \<open>\<^verbatim>\<open>for (auto& track: laser_tracks_) track->updateFromGTSAMValues(result);\<close>\<close>

definition update_all_tracks ::
  "('b, 't, 'v, 'se3, 'k, 'd, 'm) collaborators \<Rightarrow> 'v
     \<Rightarrow> ('b, 't, 'v, 'se3, 'k) IncrementalEstimator \<Rightarrow> ('b, 't, 'v, 'se3, 'k) IncrementalEstimator"
where
  "update_all_tracks env result s =
     s\<lparr>laser_tracks := map (updateFromGTSAMValues env result) (laser_tracks s),
       calls := calls s @
         map (\<lambda>i. Track_updateFromGTSAMValues i result) [0..<length (laser_tracks s)]\<rparr>"

subsection \<open>The constructor\<close>

text \<open>
  \<open>indeterminate\<close> is the value \<^verbatim>\<open>factor_indice_to_remove_\<close> happens to hold: the
  constructor does not initialise that member.
\<close>

definition IncrementalEstimator_new ::
  "('b, 't, 'v, 'se3, 'k, 'd, 'm) collaborators \<Rightarrow> EstimatorParams \<Rightarrow> nat \<Rightarrow> nat
     \<Rightarrow> ('b, 't, 'v, 'se3, 'k) IncrementalEstimator"
where
  "IncrementalEstimator_new env parameters n_workers indeterminate =
     \<lparr>params = parameters,
      n_laser_slam_workers = n_workers,
      isam2 = new_ISAM2 env \<lparr>relinearizeSkip = 1, relinearizeThreshold = 1 / 1000\<rparr>,
      laser_tracks = map (new_LaserTrack env (laser_track_params parameters)) [0..<n_workers],
      loop_closure_noise_model =
        (if add_m_estimator_on_loop_closures parameters
         then Robust (Cauchy 1) (Diagonal_Sigmas (loop_closure_noise_model_sigmas parameters))
         else Diagonal_Sigmas (loop_closure_noise_model_sigmas parameters)),
      icp =
        (if ifstream_good env (icp_configuration_file (laser_track_params parameters))
         then LoadedFromYaml (icp_configuration_file (laser_track_params parameters))
         else Default_configuration),
      factor_indice_to_remove = indeterminate,
      calls = []\<rparr>"

subsection \<open>The operations\<close>

definition estimate ::
  "('b, 't, 'v, 'se3, 'k, 'd, 'm) collaborators \<Rightarrow> ('se3, 'k) factor list \<Rightarrow> 'v
     \<Rightarrow> ('b, 't, 'v, 'se3, 'k) IncrementalEstimator
     \<Rightarrow> (fatal + 'v) \<times> ('b, 't, 'v, 'se3, 'k) IncrementalEstimator"
where
  "estimate env new_factors new_values s =
     (let s1 = lock_guard s;
          s2 = snd (update env new_factors new_values [] s1);
          s3 = update_noop env s2;
          s4 = update_noop env s3;
          (result, s5) = calculateEstimate env s4
      in (Inr result, unlock_guard s5))"

definition estimateAndRemove ::
  "('b, 't, 'v, 'se3, 'k, 'd, 'm) collaborators \<Rightarrow> ('se3, 'k) factor list \<Rightarrow> 'v
     \<Rightarrow> ('b, 't, 'v, 'se3, 'k) IncrementalEstimator
     \<Rightarrow> (fatal + 'v) \<times> ('b, 't, 'v, 'se3, 'k) IncrementalEstimator"
where
  "estimateAndRemove env new_factors new_values s =
     (let s1 = lock_guard s;
          factor_indices_to_remove = [] @ [factor_indice_to_remove s1];
          s2 = snd (update env new_factors new_values factor_indices_to_remove s1);
          s3 = update_noop env s2;
          s4 = update_noop env s3;
          (result, s5) = calculateEstimate env s4
      in (Inr result, unlock_guard s5))"

text \<open>The geometric refinement of a candidate: lines 64 to 89.\<close>

definition icp_step ::
  "('b, 't, 'v, 'se3, 'k, 'd, 'm) collaborators \<Rightarrow> ('b, 't, 'v, 'se3, 'k) IncrementalEstimator
     \<Rightarrow> 't \<Rightarrow> 't \<Rightarrow> 'se3 RelativePose \<Rightarrow> 'se3 RelativePose option"
where
  "icp_step env s track_a track_b loop_closure =
     (if do_icp_step_on_loop_closures (params s) then
        (let initial_guess = getTransformationMatrix env (T_a_b loop_closure);
             sub_map_a = buildSubMapAroundTime env track_a (time_a_ns loop_closure)
                           (loop_closures_sub_maps_radius (params s));
             sub_map_b = buildSubMapAroundTime env track_b (time_b_ns loop_closure)
                           (loop_closures_sub_maps_radius (params s))
         in case icp_compute env (icp s) sub_map_b sub_map_a initial_guess of
              None \<Rightarrow> None
            | Some icp_solution \<Rightarrow>
                Some (loop_closure\<lparr>T_a_b := convertTransformationMatrixToSE3 env icp_solution\<rparr>))
      else Some loop_closure)"

text \<open>The factor of lines 92 to 101.\<close>

definition loop_closure_factor ::
  "('b, 't, 'v, 'se3, 'k, 'd, 'm) collaborators \<Rightarrow> ('b, 't, 'v, 'se3, 'k) IncrementalEstimator
     \<Rightarrow> 't \<Rightarrow> 't \<Rightarrow> 'se3 RelativePose \<Rightarrow> ('se3, 'k) factor"
where
  "loop_closure_factor env s track_a track_b updated_loop_closure =
     (let T_w_b = getValueExpression env track_b (time_b_ns updated_loop_closure);
          T_w_a = getValueExpression env track_a (time_a_ns updated_loop_closure);
          T_a_w = Inverse T_w_a;
          relative = Compose T_a_w T_w_b
      in ExpressionFactor (loop_closure_noise_model s) (T_a_b updated_loop_closure) relative)"

definition processLoopClosure ::
  "('b, 't, 'v, 'se3, 'k, 'd, 'm) collaborators \<Rightarrow> 'se3 RelativePose
     \<Rightarrow> ('b, 't, 'v, 'se3, 'k) IncrementalEstimator
     \<Rightarrow> (fatal + unit) \<times> ('b, 't, 'v, 'se3, 'k) IncrementalEstimator"
where
  "processLoopClosure env loop_closure s0 =
     (let s = lock_guard s0 in
      if \<not> time_a_ns loop_closure < time_b_ns loop_closure then (Inl CHECK_LT_failed, s)
      else
       (case track_at s (track_id_a loop_closure) of
          None \<Rightarrow> (Inl Index_out_of_range, s)
        | Some track_a \<Rightarrow>
            if \<not> time_a_ns loop_closure \<ge> getMinTime env track_a
            then (Inl CHECK_GE_failed, s)
            else if \<not> time_a_ns loop_closure \<le> getMaxTime env track_a
            then (Inl CHECK_LE_failed, s)
            else
             (case track_at s (track_id_b loop_closure) of
                None \<Rightarrow> (Inl Index_out_of_range, s)
              | Some track_b \<Rightarrow>
                  if \<not> time_b_ns loop_closure \<ge> getMinTime env track_b
                  then (Inl CHECK_GE_failed, s)
                  else if \<not> time_b_ns loop_closure \<le> getMaxTime env track_b
                  then (Inl CHECK_LE_failed, s)
                  else
                   (case icp_step env s track_a track_b loop_closure of
                      None \<Rightarrow> (Inl Icp_exception, s)
                    | Some updated_loop_closure \<Rightarrow>
                       (let new_factors =
                              [] @ [loop_closure_factor env s track_a track_b updated_loop_closure];
                            new_values = empty_Values env
                        in (case estimateAndRemove env new_factors new_values s of
                              (Inl e, s') \<Rightarrow> (Inl e, s')
                            | (Inr result, s') \<Rightarrow>
                                (Inr (), unlock_guard (update_all_tracks env result s'))))))))"

text \<open>\<^verbatim>\<open>newFactorsIndices.at(0u)\<close> is read only after the \<^verbatim>\<open>CHECK_EQ\<close> has
  established that the vector has one element, so it cannot throw.\<close>

definition registerPrior ::
  "('b, 't, 'v, 'se3, 'k, 'd, 'm) collaborators \<Rightarrow> ('se3, 'k) factor list \<Rightarrow> 'v \<Rightarrow> nat
     \<Rightarrow> ('b, 't, 'v, 'se3, 'k) IncrementalEstimator
     \<Rightarrow> (fatal + 'v) \<times> ('b, 't, 'v, 'se3, 'k) IncrementalEstimator"
where
  "registerPrior env new_factors new_values worker_id s =
     (case update env new_factors new_values [] s of
        (newFactorsIndices, s1) \<Rightarrow>
          if length newFactorsIndices \<noteq> 1 then (Inl CHECK_EQ_failed, s1)
          else
            (let s2 = (if worker_id = 1
                       then s1\<lparr>factor_indice_to_remove := newFactorsIndices ! 0\<rparr>
                       else s1);
                 s3 = update_noop env s2;
                 s4 = update_noop env s3;
                 (result, s5) = calculateEstimate env s4
             in (Inr result, s5)))"

text \<open>The handle returned is the track at that position; \<^verbatim>\<open>CHECK_GE\<close> of an
  unsigned id against \<^verbatim>\<open>0u\<close> cannot fail.\<close>

definition getLaserTrack ::
  "nat \<Rightarrow> ('b, 't, 'v, 'se3, 'k) IncrementalEstimator
     \<Rightarrow> (fatal + 't) \<times> ('b, 't, 'v, 'se3, 'k) IncrementalEstimator"
where
  "getLaserTrack laser_track_id s0 =
     (let s = lock_guard s0 in
      if \<not> laser_track_id \<ge> 0 then (Inl CHECK_GE_failed, s)
      else if \<not> laser_track_id < length (laser_tracks s) then (Inl CHECK_LT_failed, s)
      else (Inr (laser_tracks s ! laser_track_id), unlock_guard s))"

subsection \<open>What a call leaves behind\<close>

text \<open>The calls on the shared objects made between two states.\<close>

definition emitted ::
  "('b, 't, 'v, 'se3, 'k) IncrementalEstimator \<Rightarrow> ('b, 't, 'v, 'se3, 'k) IncrementalEstimator
     \<Rightarrow> (('se3, 'k) factor, 'v) call list"
where
  "emitted s s' = drop (length (calls s)) (calls s')"

text \<open>The \<^verbatim>\<open>isam2_.update\<close> calls among a list of calls.\<close>

fun is_update :: "('f, 'v) call \<Rightarrow> bool" where
  "is_update (Smoother_update new_factors new_values to_remove) = True"
| "is_update c = False"

text \<open>
  Whether every call of a list on the smoother or on a track is made while the
  recursive mutex is held, \<open>d\<close> being the number of times the caller holds it at the
  start.
\<close>

fun under_lock :: "nat \<Rightarrow> ('f, 'v) call list \<Rightarrow> bool" where
  "under_lock d [] = True"
| "under_lock d (Mutex_lock # cs) = under_lock (Suc d) cs"
| "under_lock d (Mutex_unlock # cs) = (0 < d \<and> under_lock (d - 1) cs)"
| "under_lock d (c # cs) = (0 < d \<and> under_lock d cs)"

fun is_track_update :: "('f, 'v) call \<Rightarrow> bool" where
  "is_track_update (Track_updateFromGTSAMValues i result) = True"
| "is_track_update c = False"

subsection \<open>The invariant of a candidate\<close>

text \<open>
  The checks at the head of \<open>processLoopClosure\<close>, as one predicate on the state:
  whether both track ids are positions of \<^verbatim>\<open>laser_tracks_\<close>, and whether the
  candidate's times are ordered and within the bounds of their tracks. The second is
  only meaningful where the first holds.
\<close>

definition tracks_exist ::
  "('b, 't, 'v, 'se3, 'k) IncrementalEstimator \<Rightarrow> 'se3 RelativePose \<Rightarrow> bool"
where
  "tracks_exist s loop_closure =
     (track_id_a loop_closure < length (laser_tracks s) \<and>
      track_id_b loop_closure < length (laser_tracks s))"

definition time_bounds_hold ::
  "('b, 't, 'v, 'se3, 'k, 'd, 'm) collaborators \<Rightarrow> ('b, 't, 'v, 'se3, 'k) IncrementalEstimator
     \<Rightarrow> 'se3 RelativePose \<Rightarrow> bool"
where
  "time_bounds_hold env s loop_closure =
     (time_a_ns loop_closure < time_b_ns loop_closure \<and>
      getMinTime env (laser_tracks s ! track_id_a loop_closure) \<le> time_a_ns loop_closure \<and>
      time_a_ns loop_closure \<le> getMaxTime env (laser_tracks s ! track_id_a loop_closure) \<and>
      getMinTime env (laser_tracks s ! track_id_b loop_closure) \<le> time_b_ns loop_closure \<and>
      time_b_ns loop_closure \<le> getMaxTime env (laser_tracks s ! track_id_b loop_closure))"

subsection \<open>Reference collaborators\<close>

text \<open>
  Modelled from the spec: the optimizer backend (GTSAM's iSAM2), the tracks and the scan
  matcher are not among the sources. The definitions below are one instance of
  \<open>collaborators\<close>, following section 6 of the specification, on which the theorems
  are run at concrete inputs. The backend keeps the policy it was created with, one slot
  per constraint ever added (a removed constraint leaves its slot empty) and the
  variables it was given; an update empties the slots named for removal, then gives the
  new constraints the next free indices, in order. A track spans the times 0 to 100, its
  pose expression at a time is the leaf naming the track and the time, and it stores the
  last estimate pushed into it. The estimate of the backend gives every variable the
  number of slots as its value, so that it changes with every constraint added. The scan
  matcher returns its initial guess moved by one, and no configuration file can be
  read.
\<close>

record ref_backend =
  policy :: ISAM2Params
  slots :: "(int, nat \<times> int) factor option list"
  variables :: "(nat \<times> int) list"

record ref_track =
  track_id :: nat
  min_time :: int
  max_time :: int
  estimate_received :: "(nat \<times> int) list"

definition ref_update ::
  "(int, nat \<times> int) factor list \<Rightarrow> (nat \<times> int) list \<Rightarrow> nat list \<Rightarrow> ref_backend
     \<Rightarrow> nat list \<times> ref_backend"
where
  "ref_update new_factors new_values to_remove b =
     (let kept = fold (\<lambda>i sl. sl[i := None]) to_remove (slots b)
      in ([length kept ..< length kept + length new_factors],
          b\<lparr>slots := kept @ map Some new_factors,
            variables := variables b @ new_values\<rparr>))"

text \<open>The number of constraints the backend holds, and whether an index names one.\<close>

definition constraint_count :: "ref_backend \<Rightarrow> nat" where
  "constraint_count b = sum_list (map (\<lambda>x. if x = None then 0 else 1) (slots b))"

definition live :: "ref_backend \<Rightarrow> nat \<Rightarrow> bool" where
  "live b i = (i < length (slots b) \<and> slots b ! i \<noteq> None)"

definition ref_env ::
  "(ref_backend, ref_track, (nat \<times> int) list, int, nat \<times> int, unit, int) collaborators"
where
  "ref_env =
     \<lparr>new_ISAM2 = (\<lambda>p. \<lparr>policy = p, slots = [], variables = []\<rparr>),
      ISAM2_update = ref_update,
      ISAM2_calculateEstimate =
        (\<lambda>b. map (\<lambda>v. (fst v, int (length (slots b)))) (variables b)),
      empty_Values = [],
      new_LaserTrack =
        (\<lambda>p i. \<lparr>track_id = i, min_time = 0, max_time = 100, estimate_received = []\<rparr>),
      getMinTime = min_time,
      getMaxTime = max_time,
      buildSubMapAroundTime = (\<lambda>t time radius. ()),
      getValueExpression = (\<lambda>t time. Leaf (track_id t, time)),
      updateFromGTSAMValues = (\<lambda>v t. t\<lparr>estimate_received := v\<rparr>),
      getTransformationMatrix = (\<lambda>T. T),
      icp_compute = (\<lambda>cfg source target initial_guess. Some (initial_guess + 1)),
      convertTransformationMatrixToSE3 = (\<lambda>M. M),
      ifstream_good = (\<lambda>file. False)\<rparr>"

text \<open>Estimation parameters and a candidate for the runs: two workers, refinement
  off, the candidate of the specification's scenario. The uninitialised slot of the
  fresh estimator holds 7.\<close>

definition ref_params :: EstimatorParams where
  "ref_params =
     \<lparr>relinearize_skip = 10,
      relinearize_threshold = 1 / 10,
      loop_closure_noise_model_sigmas = [1, 1, 1, 1, 1, 1],
      add_m_estimator_on_loop_closures = True,
      do_icp_step_on_loop_closures = False,
      loop_closures_sub_maps_radius = 3,
      laser_track_params = \<lparr>icp_configuration_file = ''icp.yaml''\<rparr>\<rparr>"

definition ref_estimator ::
  "(ref_backend, ref_track, (nat \<times> int) list, int, nat \<times> int) IncrementalEstimator"
where
  "ref_estimator = IncrementalEstimator_new ref_env ref_params 2 7"

definition ref_candidate :: "int RelativePose" where
  "ref_candidate =
     \<lparr>T_a_b = 0, time_a_ns = 10, time_b_ns = 50, track_id_a = 0, track_id_b = 1\<rparr>"

definition ref_prior :: "(int, nat \<times> int) factor" where
  "ref_prior = ExpressionFactor (Diagonal_Sigmas [1, 1, 1, 1, 1, 1]) 0 (Leaf (1, 0))"

text \<open>The reference estimator after worker 1 has registered its prior, and after one
  submit-and-dedupe call on top of that.\<close>

definition ref_after_prior ::
  "(ref_backend, ref_track, (nat \<times> int) list, int, nat \<times> int) IncrementalEstimator"
where
  "ref_after_prior = snd (registerPrior ref_env [ref_prior] [(1, 0)] 1 ref_estimator)"

definition ref_after_dedupe ::
  "(ref_backend, ref_track, (nat \<times> int) list, int, nat \<times> int) IncrementalEstimator"
where
  "ref_after_dedupe = snd (estimateAndRemove ref_env [ref_prior] [] ref_after_prior)"

text \<open>The same estimator built with the geometric refinement switched on, after worker 1
  has registered its prior.\<close>

definition ref_refining ::
  "(ref_backend, ref_track, (nat \<times> int) list, int, nat \<times> int) IncrementalEstimator"
where
  "ref_refining =
     snd (registerPrior ref_env [ref_prior] [(1, 0)] 1
       (IncrementalEstimator_new ref_env
          (ref_params\<lparr>do_icp_step_on_loop_closures := True\<rparr>) 2 7))"

section \<open>Properties\<close>

subsection \<open>The state after each step\<close>

lemma emitted_append [simp]: "calls s' = calls s @ cs \<Longrightarrow> emitted s s' = cs"
  by (simp add: emitted_def)

lemma lock_guard_simps [simp]:
  "isam2 (lock_guard s) = isam2 s"
  "laser_tracks (lock_guard s) = laser_tracks s"
  "factor_indice_to_remove (lock_guard s) = factor_indice_to_remove s"
  "loop_closure_noise_model (lock_guard s) = loop_closure_noise_model s"
  "params (lock_guard s) = params s"
  "icp (lock_guard s) = icp s"
  "calls (lock_guard s) = calls s @ [Mutex_lock]"
  by (simp_all add: lock_guard_def)

lemma unlock_guard_simps [simp]:
  "isam2 (unlock_guard s) = isam2 s"
  "laser_tracks (unlock_guard s) = laser_tracks s"
  "factor_indice_to_remove (unlock_guard s) = factor_indice_to_remove s"
  "loop_closure_noise_model (unlock_guard s) = loop_closure_noise_model s"
  "params (unlock_guard s) = params s"
  "icp (unlock_guard s) = icp s"
  "calls (unlock_guard s) = calls s @ [Mutex_unlock]"
  by (simp_all add: unlock_guard_def)

lemma update_simps [simp]:
  "fst (update env nf nv rm s) = fst (ISAM2_update env nf nv rm (isam2 s))"
  "isam2 (snd (update env nf nv rm s)) = snd (ISAM2_update env nf nv rm (isam2 s))"
  "laser_tracks (snd (update env nf nv rm s)) = laser_tracks s"
  "factor_indice_to_remove (snd (update env nf nv rm s)) = factor_indice_to_remove s"
  "loop_closure_noise_model (snd (update env nf nv rm s)) = loop_closure_noise_model s"
  "params (snd (update env nf nv rm s)) = params s"
  "icp (snd (update env nf nv rm s)) = icp s"
  "calls (snd (update env nf nv rm s)) = calls s @ [Smoother_update nf nv rm]"
  by (simp_all add: update_def split: prod.split)

lemma update_noop_simps [simp]:
  "isam2 (update_noop env s) = snd (ISAM2_update env [] (empty_Values env) [] (isam2 s))"
  "laser_tracks (update_noop env s) = laser_tracks s"
  "factor_indice_to_remove (update_noop env s) = factor_indice_to_remove s"
  "loop_closure_noise_model (update_noop env s) = loop_closure_noise_model s"
  "params (update_noop env s) = params s"
  "icp (update_noop env s) = icp s"
  "calls (update_noop env s) = calls s @ [Smoother_update [] (empty_Values env) []]"
  by (simp_all add: update_noop_def)

lemma calculateEstimate_simps [simp]:
  "fst (calculateEstimate env s) = ISAM2_calculateEstimate env (isam2 s)"
  "isam2 (snd (calculateEstimate env s)) = isam2 s"
  "laser_tracks (snd (calculateEstimate env s)) = laser_tracks s"
  "factor_indice_to_remove (snd (calculateEstimate env s)) = factor_indice_to_remove s"
  "loop_closure_noise_model (snd (calculateEstimate env s)) = loop_closure_noise_model s"
  "params (snd (calculateEstimate env s)) = params s"
  "icp (snd (calculateEstimate env s)) = icp s"
  "calls (snd (calculateEstimate env s)) = calls s @ [Smoother_calculateEstimate]"
  by (simp_all add: calculateEstimate_def)

lemma update_all_tracks_simps [simp]:
  "isam2 (update_all_tracks env r s) = isam2 s"
  "laser_tracks (update_all_tracks env r s) = map (updateFromGTSAMValues env r) (laser_tracks s)"
  "factor_indice_to_remove (update_all_tracks env r s) = factor_indice_to_remove s"
  "loop_closure_noise_model (update_all_tracks env r s) = loop_closure_noise_model s"
  "params (update_all_tracks env r s) = params s"
  "icp (update_all_tracks env r s) = icp s"
  "calls (update_all_tracks env r s) =
     calls s @ map (\<lambda>i. Track_updateFromGTSAMValues i r) [0..<length (laser_tracks s)]"
  by (simp_all add: update_all_tracks_def)

lemma estimate_unfold:
  "fst (estimate env nf nv s) =
     Inr (ISAM2_calculateEstimate env (isam2 (snd (estimate env nf nv s))))"
  "isam2 (snd (estimate env nf nv s)) =
     snd (ISAM2_update env [] (empty_Values env) []
       (snd (ISAM2_update env [] (empty_Values env) []
         (snd (ISAM2_update env nf nv [] (isam2 s))))))"
  "laser_tracks (snd (estimate env nf nv s)) = laser_tracks s"
  "factor_indice_to_remove (snd (estimate env nf nv s)) = factor_indice_to_remove s"
  "loop_closure_noise_model (snd (estimate env nf nv s)) = loop_closure_noise_model s"
  "calls (snd (estimate env nf nv s)) = calls s @
     [Mutex_lock, Smoother_update nf nv [],
      Smoother_update [] (empty_Values env) [], Smoother_update [] (empty_Values env) [],
      Smoother_calculateEstimate, Mutex_unlock]"
  by (simp_all add: estimate_def Let_def case_prod_beta)

lemma estimateAndRemove_unfold:
  "fst (estimateAndRemove env nf nv s) =
     Inr (ISAM2_calculateEstimate env (isam2 (snd (estimateAndRemove env nf nv s))))"
  "isam2 (snd (estimateAndRemove env nf nv s)) =
     snd (ISAM2_update env [] (empty_Values env) []
       (snd (ISAM2_update env [] (empty_Values env) []
         (snd (ISAM2_update env nf nv [factor_indice_to_remove s] (isam2 s))))))"
  "laser_tracks (snd (estimateAndRemove env nf nv s)) = laser_tracks s"
  "factor_indice_to_remove (snd (estimateAndRemove env nf nv s)) = factor_indice_to_remove s"
  "loop_closure_noise_model (snd (estimateAndRemove env nf nv s)) = loop_closure_noise_model s"
  "calls (snd (estimateAndRemove env nf nv s)) = calls s @
     [Mutex_lock, Smoother_update nf nv [factor_indice_to_remove s],
      Smoother_update [] (empty_Values env) [], Smoother_update [] (empty_Values env) [],
      Smoother_calculateEstimate, Mutex_unlock]"
  by (simp_all add: estimateAndRemove_def Let_def case_prod_beta)

lemma estimateAndRemove_returns:
  "estimateAndRemove env nf nv s =
     (Inr (ISAM2_calculateEstimate env (isam2 (snd (estimateAndRemove env nf nv s)))),
      snd (estimateAndRemove env nf nv s))"
  using estimateAndRemove_unfold(1) [of env nf nv s] by (simp add: prod_eq_iff)

lemma registerPrior_abort:
  assumes "length (fst (ISAM2_update env nf nv [] (isam2 s))) \<noteq> 1"
  shows "registerPrior env nf nv w s = (Inl CHECK_EQ_failed, snd (update env nf nv [] s))"
  using assms by (simp add: registerPrior_def case_prod_beta)

lemma registerPrior_ok:
  assumes "length (fst (ISAM2_update env nf nv [] (isam2 s))) = 1"
  shows
  "fst (registerPrior env nf nv w s) =
     Inr (ISAM2_calculateEstimate env (isam2 (snd (registerPrior env nf nv w s))))"
  "isam2 (snd (registerPrior env nf nv w s)) =
     snd (ISAM2_update env [] (empty_Values env) []
       (snd (ISAM2_update env [] (empty_Values env) []
         (snd (ISAM2_update env nf nv [] (isam2 s))))))"
  "laser_tracks (snd (registerPrior env nf nv w s)) = laser_tracks s"
  "factor_indice_to_remove (snd (registerPrior env nf nv w s)) =
     (if w = 1 then fst (ISAM2_update env nf nv [] (isam2 s)) ! 0 else factor_indice_to_remove s)"
  "calls (snd (registerPrior env nf nv w s)) = calls s @
     [Smoother_update nf nv [],
      Smoother_update [] (empty_Values env) [], Smoother_update [] (empty_Values env) [],
      Smoother_calculateEstimate]"
  using assms by (simp_all add: registerPrior_def Let_def case_prod_beta)

lemma icp_step_lock_guard [simp]: "icp_step env (lock_guard s) = icp_step env s"
  by (simp add: icp_step_def fun_eq_iff)

lemma icp_step_times:
  "icp_step env s ta tb lc = Some u \<Longrightarrow>
     time_a_ns u = time_a_ns lc \<and> time_b_ns u = time_b_ns lc \<and>
     track_id_a u = track_id_a lc \<and> track_id_b u = track_id_b lc"
  by (auto simp add: icp_step_def Let_def split: if_splits option.splits)

lemma loop_closure_factor_lock_guard [simp]:
  "loop_closure_factor env (lock_guard s) = loop_closure_factor env s"
  by (simp add: loop_closure_factor_def fun_eq_iff)

lemma track_at_lock_guard [simp]: "track_at (lock_guard s) = track_at s"
  by (simp add: track_at_def fun_eq_iff)

lemma processLoopClosure_abort_state:
  "fst (processLoopClosure env lc s) = Inl e \<Longrightarrow> snd (processLoopClosure env lc s) = lock_guard s"
  apply (subst (asm) processLoopClosure_def)
  apply (subst processLoopClosure_def)
  apply (subst (asm) estimateAndRemove_returns)
  apply (subst estimateAndRemove_returns)
  apply (simp add: Let_def split: if_splits option.splits)
  done

lemma processLoopClosure_rejects:
  assumes "\<not> time_a_ns lc < time_b_ns lc \<or>
           (track_id_a lc < length (laser_tracks s) \<and>
            \<not> (getMinTime env (laser_tracks s ! track_id_a lc) \<le> time_a_ns lc \<and>
               time_a_ns lc \<le> getMaxTime env (laser_tracks s ! track_id_a lc))) \<or>
           (tracks_exist s lc \<and> \<not> time_bounds_hold env s lc)"
  shows "processLoopClosure env lc s =
     (Inl (if \<not> time_a_ns lc < time_b_ns lc then CHECK_LT_failed
           else if \<not> getMinTime env (laser_tracks s ! track_id_a lc) \<le> time_a_ns lc then CHECK_GE_failed
           else if \<not> time_a_ns lc \<le> getMaxTime env (laser_tracks s ! track_id_a lc) then CHECK_LE_failed
           else if \<not> getMinTime env (laser_tracks s ! track_id_b lc) \<le> time_b_ns lc then CHECK_GE_failed
           else CHECK_LE_failed), lock_guard s)"
  using assms
  by (auto simp add: processLoopClosure_def Let_def track_at_def tracks_exist_def
      time_bounds_hold_def)

lemma processLoopClosure_accepts:
  assumes "tracks_exist s lc" and "time_bounds_hold env s lc"
    and "icp_step env s (laser_tracks s ! track_id_a lc) (laser_tracks s ! track_id_b lc) lc = Some u"
  shows "processLoopClosure env lc s =
     (Inr (),
      unlock_guard (update_all_tracks env
        (ISAM2_calculateEstimate env (isam2 (snd (estimateAndRemove env
           [loop_closure_factor env s (laser_tracks s ! track_id_a lc)
              (laser_tracks s ! track_id_b lc) u] (empty_Values env) (lock_guard s)))))
        (snd (estimateAndRemove env
           [loop_closure_factor env s (laser_tracks s ! track_id_a lc)
              (laser_tracks s ! track_id_b lc) u] (empty_Values env) (lock_guard s)))))"
  using assms
  apply (subst processLoopClosure_def)
  apply (subst estimateAndRemove_returns)
  apply (simp add: Let_def track_at_def tracks_exist_def time_bounds_hold_def)
  done

text \<open>The refinement step returns exactly when it is switched off or the matcher
  returns; the candidate it returns differs from the one given in the transform only.\<close>

lemma icp_step_returns:
  "icp_step env s track_a track_b lc =
     (if do_icp_step_on_loop_closures (params s)
      then map_option (\<lambda>icp_solution. lc\<lparr>T_a_b := convertTransformationMatrixToSE3 env icp_solution\<rparr>)
             (icp_compute env (icp s)
                (buildSubMapAroundTime env track_b (time_b_ns lc)
                   (loop_closures_sub_maps_radius (params s)))
                (buildSubMapAroundTime env track_a (time_a_ns lc)
                   (loop_closures_sub_maps_radius (params s)))
                (getTransformationMatrix env (T_a_b lc)))
      else Some lc)"
  by (simp add: icp_step_def Let_def split: option.splits)

text \<open>What a call on a valid candidate whose matcher returns leaves behind.\<close>

lemma processLoopClosure_valid:
  assumes "tracks_exist s lc" and "time_bounds_hold env s lc"
    and "do_icp_step_on_loop_closures (params s) \<longrightarrow>
         icp_compute env (icp s)
           (buildSubMapAroundTime env (laser_tracks s ! track_id_b lc) (time_b_ns lc)
              (loop_closures_sub_maps_radius (params s)))
           (buildSubMapAroundTime env (laser_tracks s ! track_id_a lc) (time_a_ns lc)
              (loop_closures_sub_maps_radius (params s)))
           (getTransformationMatrix env (T_a_b lc)) = Some icp_solution"
  shows "fst (processLoopClosure env lc s) = Inr ()"
    and "isam2 (snd (processLoopClosure env lc s)) =
       snd (ISAM2_update env [] (empty_Values env) []
         (snd (ISAM2_update env [] (empty_Values env) []
           (snd (ISAM2_update env
              [ExpressionFactor (loop_closure_noise_model s)
                 (if do_icp_step_on_loop_closures (params s)
                  then convertTransformationMatrixToSE3 env icp_solution else T_a_b lc)
                 (Compose
                    (Inverse (getValueExpression env (laser_tracks s ! track_id_a lc)
                       (time_a_ns lc)))
                    (getValueExpression env (laser_tracks s ! track_id_b lc) (time_b_ns lc)))]
              (empty_Values env) [factor_indice_to_remove s] (isam2 s))))))"
    and "laser_tracks (snd (processLoopClosure env lc s)) =
       map (updateFromGTSAMValues env
              (ISAM2_calculateEstimate env (isam2 (snd (processLoopClosure env lc s)))))
           (laser_tracks s)"
    and "loop_closure_noise_model (snd (processLoopClosure env lc s)) =
       loop_closure_noise_model s"
    and "calls (snd (processLoopClosure env lc s)) = calls s @
       [Mutex_lock, Mutex_lock,
        Smoother_update
          [ExpressionFactor (loop_closure_noise_model s)
             (if do_icp_step_on_loop_closures (params s)
              then convertTransformationMatrixToSE3 env icp_solution else T_a_b lc)
             (Compose
                (Inverse (getValueExpression env (laser_tracks s ! track_id_a lc)
                   (time_a_ns lc)))
                (getValueExpression env (laser_tracks s ! track_id_b lc) (time_b_ns lc)))]
          (empty_Values env) [factor_indice_to_remove s],
        Smoother_update [] (empty_Values env) [], Smoother_update [] (empty_Values env) [],
        Smoother_calculateEstimate, Mutex_unlock] @
       map (\<lambda>i. Track_updateFromGTSAMValues i
              (ISAM2_calculateEstimate env (isam2 (snd (processLoopClosure env lc s)))))
           [0..<length (laser_tracks s)] @
       [Mutex_unlock]"
proof -
  have i: "icp_step env s (laser_tracks s ! track_id_a lc) (laser_tracks s ! track_id_b lc) lc =
      Some (if do_icp_step_on_loop_closures (params s)
            then lc\<lparr>T_a_b := convertTransformationMatrixToSE3 env icp_solution\<rparr> else lc)"
    using assms(3) by (simp add: icp_step_returns)
  note a = processLoopClosure_accepts [OF assms(1,2) i]
  show "fst (processLoopClosure env lc s) = Inr ()"
    by (simp add: a)
  show "isam2 (snd (processLoopClosure env lc s)) =
       snd (ISAM2_update env [] (empty_Values env) []
         (snd (ISAM2_update env [] (empty_Values env) []
           (snd (ISAM2_update env
              [ExpressionFactor (loop_closure_noise_model s)
                 (if do_icp_step_on_loop_closures (params s)
                  then convertTransformationMatrixToSE3 env icp_solution else T_a_b lc)
                 (Compose
                    (Inverse (getValueExpression env (laser_tracks s ! track_id_a lc)
                       (time_a_ns lc)))
                    (getValueExpression env (laser_tracks s ! track_id_b lc) (time_b_ns lc)))]
              (empty_Values env) [factor_indice_to_remove s] (isam2 s))))))"
    by (simp add: a estimateAndRemove_unfold loop_closure_factor_def Let_def)
  show "laser_tracks (snd (processLoopClosure env lc s)) =
       map (updateFromGTSAMValues env
              (ISAM2_calculateEstimate env (isam2 (snd (processLoopClosure env lc s)))))
           (laser_tracks s)"
    by (simp add: a estimateAndRemove_unfold)
  show "loop_closure_noise_model (snd (processLoopClosure env lc s)) =
       loop_closure_noise_model s"
    by (simp add: a estimateAndRemove_unfold)
  show "calls (snd (processLoopClosure env lc s)) = calls s @
       [Mutex_lock, Mutex_lock,
        Smoother_update
          [ExpressionFactor (loop_closure_noise_model s)
             (if do_icp_step_on_loop_closures (params s)
              then convertTransformationMatrixToSE3 env icp_solution else T_a_b lc)
             (Compose
                (Inverse (getValueExpression env (laser_tracks s ! track_id_a lc)
                   (time_a_ns lc)))
                (getValueExpression env (laser_tracks s ! track_id_b lc) (time_b_ns lc)))]
          (empty_Values env) [factor_indice_to_remove s],
        Smoother_update [] (empty_Values env) [], Smoother_update [] (empty_Values env) [],
        Smoother_calculateEstimate, Mutex_unlock] @
       map (\<lambda>i. Track_updateFromGTSAMValues i
              (ISAM2_calculateEstimate env (isam2 (snd (processLoopClosure env lc s)))))
           [0..<length (laser_tracks s)] @
       [Mutex_unlock]"
    by (simp add: a estimateAndRemove_unfold loop_closure_factor_def Let_def)
qed

lemma processLoopClosure_index_error:
  "fst (processLoopClosure env lc s) = Inl Index_out_of_range \<longleftrightarrow>
     time_a_ns lc < time_b_ns lc \<and>
     (\<not> track_id_a lc < length (laser_tracks s) \<or>
      (track_id_a lc < length (laser_tracks s) \<and>
       getMinTime env (laser_tracks s ! track_id_a lc) \<le> time_a_ns lc \<and>
       time_a_ns lc \<le> getMaxTime env (laser_tracks s ! track_id_a lc) \<and>
       \<not> track_id_b lc < length (laser_tracks s)))"
  apply (subst processLoopClosure_def)
  apply (subst estimateAndRemove_returns)
  apply (simp add: Let_def track_at_def split: option.splits)
  done

lemma processLoopClosure_returns_needs_tracks:
  "fst (processLoopClosure env lc s) = Inr u \<Longrightarrow> tracks_exist s lc \<and> time_bounds_hold env s lc"
  apply (subst (asm) processLoopClosure_def)
  apply (subst (asm) estimateAndRemove_returns)
  apply (simp add: Let_def track_at_def tracks_exist_def time_bounds_hold_def
      split: option.splits if_splits)
  done

lemma processLoopClosure_slot:
  "factor_indice_to_remove (snd (processLoopClosure env lc s)) = factor_indice_to_remove s"
  apply (subst processLoopClosure_def)
  apply (subst estimateAndRemove_returns)
  apply (simp add: Let_def estimateAndRemove_unfold split: option.splits)
  done

lemma getLaserTrack_slot:
  "factor_indice_to_remove (snd (getLaserTrack i s)) = factor_indice_to_remove s"
  by (simp add: getLaserTrack_def Let_def)

lemma under_lock_track_updates:
  "0 < d \<Longrightarrow> under_lock d (map (\<lambda>i. Track_updateFromGTSAMValues i r) xs @ cs) = under_lock d cs"
  by (induction xs) auto

lemma filter_is_update_track_updates [simp]:
  "filter is_update (map (\<lambda>i. Track_updateFromGTSAMValues i r) xs) = []"
  by (induction xs) auto

lemma filter_is_track_update_track_updates [simp]:
  "filter is_track_update (map (\<lambda>i. Track_updateFromGTSAMValues i r) xs) =
     map (\<lambda>i. Track_updateFromGTSAMValues i r) xs"
  by (induction xs) auto

text \<open>The constructor makes one track per worker, numbered from 0, and picks the noise
  model by the flag; no operation changes the noise model afterwards.\<close>

lemma constructor_tracks:
  "laser_tracks (IncrementalEstimator_new env parameters n_workers indeterminate) =
     map (new_LaserTrack env (laser_track_params parameters)) [0..<n_workers] \<and>
   length (laser_tracks (IncrementalEstimator_new env parameters n_workers indeterminate)) =
     n_workers"
  by (simp add: IncrementalEstimator_new_def)

lemma constructor_noise_model:
  "loop_closure_noise_model (IncrementalEstimator_new env parameters n_workers indeterminate) =
     (if add_m_estimator_on_loop_closures parameters
      then Robust (Cauchy 1) (Diagonal_Sigmas (loop_closure_noise_model_sigmas parameters))
      else Diagonal_Sigmas (loop_closure_noise_model_sigmas parameters))"
  by (simp add: IncrementalEstimator_new_def)

lemma constructor_icp_fallback:
  "icp (IncrementalEstimator_new env parameters n_workers indeterminate) =
     (if ifstream_good env (icp_configuration_file (laser_track_params parameters))
      then LoadedFromYaml (icp_configuration_file (laser_track_params parameters))
      else Default_configuration)"
  by (simp add: IncrementalEstimator_new_def)

subsection \<open>The reference collaborators at work\<close>

lemma ref_env_simps [simp]:
  "new_ISAM2 ref_env = (\<lambda>p. \<lparr>policy = p, slots = [], variables = []\<rparr>)"
  "ISAM2_update ref_env = ref_update"
  "ISAM2_calculateEstimate ref_env =
     (\<lambda>b. map (\<lambda>v. (fst v, int (length (slots b)))) (variables b))"
  "empty_Values ref_env = []"
  "new_LaserTrack ref_env =
     (\<lambda>p i. \<lparr>track_id = i, min_time = 0, max_time = 100, estimate_received = []\<rparr>)"
  "getMinTime ref_env = min_time"
  "getMaxTime ref_env = max_time"
  "getValueExpression ref_env = (\<lambda>t time. Leaf (track_id t, time))"
  "updateFromGTSAMValues ref_env = (\<lambda>v t. t\<lparr>estimate_received := v\<rparr>)"
  "getTransformationMatrix ref_env = (\<lambda>T. T)"
  "icp_compute ref_env = (\<lambda>cfg source target initial_guess. Some (initial_guess + 1))"
  "convertTransformationMatrixToSE3 ref_env = (\<lambda>M. M)"
  "ifstream_good ref_env = (\<lambda>file. False)"
  by (simp_all add: ref_env_def)

lemma ref_estimator_simps [simp]:
  "isam2 ref_estimator =
     \<lparr>policy = \<lparr>relinearizeSkip = 1, relinearizeThreshold = 1 / 1000\<rparr>, slots = [], variables = []\<rparr>"
  "laser_tracks ref_estimator =
     [\<lparr>track_id = 0, min_time = 0, max_time = 100, estimate_received = []\<rparr>,
      \<lparr>track_id = 1, min_time = 0, max_time = 100, estimate_received = []\<rparr>]"
  "factor_indice_to_remove ref_estimator = 7"
  "calls ref_estimator = []"
  "params ref_estimator = ref_params"
  "loop_closure_noise_model ref_estimator = Robust (Cauchy 1) (Diagonal_Sigmas [1, 1, 1, 1, 1, 1])"
  "icp ref_estimator = Default_configuration"
  by (simp_all add: ref_estimator_def IncrementalEstimator_new_def ref_params_def
      upt_rec [of 0] upt_rec [of 1] upt_rec [of 2] numeral_2_eq_2)

lemma ref_after_prior_simps [simp]:
  "isam2 ref_after_prior =
     \<lparr>policy = \<lparr>relinearizeSkip = 1, relinearizeThreshold = 1 / 1000\<rparr>,
      slots = [Some ref_prior], variables = [(1, 0)]\<rparr>"
  "factor_indice_to_remove ref_after_prior = 0"
  "laser_tracks ref_after_prior = laser_tracks ref_estimator"
  "params ref_after_prior = ref_params"
  "loop_closure_noise_model ref_after_prior = loop_closure_noise_model ref_estimator"
  "icp ref_after_prior = Default_configuration"
  by (simp_all add: ref_after_prior_def registerPrior_def ref_update_def Let_def
      case_prod_beta)

lemma ref_after_dedupe_simps [simp]:
  "isam2 ref_after_dedupe =
     \<lparr>policy = \<lparr>relinearizeSkip = 1, relinearizeThreshold = 1 / 1000\<rparr>,
      slots = [None, Some ref_prior], variables = [(1, 0)]\<rparr>"
  "factor_indice_to_remove ref_after_dedupe = 0"
  by (simp_all add: ref_after_dedupe_def estimateAndRemove_unfold ref_update_def)

lemma ref_refining_simps [simp]:
  "isam2 ref_refining =
     \<lparr>policy = \<lparr>relinearizeSkip = 1, relinearizeThreshold = 1 / 1000\<rparr>,
      slots = [Some ref_prior], variables = [(1, 0)]\<rparr>"
  "factor_indice_to_remove ref_refining = 0"
  "laser_tracks ref_refining = laser_tracks ref_estimator"
  "params ref_refining = ref_params\<lparr>do_icp_step_on_loop_closures := True\<rparr>"
  "loop_closure_noise_model ref_refining = loop_closure_noise_model ref_estimator"
  "icp ref_refining = Default_configuration"
  by (simp_all add: ref_refining_def registerPrior_def ref_update_def Let_def
      case_prod_beta IncrementalEstimator_new_def ref_params_def
      upt_rec [of 0] upt_rec [of 1] upt_rec [of 2] numeral_2_eq_2)

lemma ref_candidate_simps [simp]:
  "T_a_b ref_candidate = 0" "time_a_ns ref_candidate = 10" "time_b_ns ref_candidate = 50"
  "track_id_a ref_candidate = 0" "track_id_b ref_candidate = 1"
  by (simp_all add: ref_candidate_def)

lemma ref_icp_step [simp]:
  "icp_step ref_env ref_after_prior ta tb lc = Some lc"
  by (simp add: icp_step_def ref_params_def)

lemma ref_valid [simp]:
  "tracks_exist ref_after_prior ref_candidate"
  "time_bounds_hold ref_env ref_after_prior ref_candidate"
  by (simp_all add: tracks_exist_def time_bounds_hold_def)

lemma ref_refining_valid [simp]:
  "tracks_exist ref_refining ref_candidate"
  "time_bounds_hold ref_env ref_refining ref_candidate"
  by (simp_all add: tracks_exist_def time_bounds_hold_def)

text \<open>The reference backend keeps the contract that the claim on constraint counts
  rests on: removing distinct indices that each name a held constraint, and adding new
  ones, changes the count by the number added less the number removed.\<close>

lemma sum_list_clear_slot:
  fixes sl :: "'a option list"
  assumes "i < length sl" and "sl ! i \<noteq> None"
  shows "sum_list (map (\<lambda>x. if x = None then 0 else (1::nat)) (sl[i := None])) + 1 =
         sum_list (map (\<lambda>x. if x = None then 0 else 1) sl)"
  using assms
proof (induction sl arbitrary: i)
  case Nil
  then show ?case by simp
next
  case (Cons x xs)
  then show ?case by (cases i) auto
qed

lemma fold_clear_slots:
  fixes sl :: "'a option list"
  assumes "distinct rm" and "\<forall>i\<in>set rm. i < length sl \<and> sl ! i \<noteq> None"
  shows "sum_list (map (\<lambda>x. if x = None then 0 else (1::nat)) (fold (\<lambda>i sl. sl[i := None]) rm sl))
           + length rm = sum_list (map (\<lambda>x. if x = None then 0 else 1) sl)"
  using assms
proof (induction rm arbitrary: sl)
  case Nil
  then show ?case by simp
next
  case (Cons i rm)
  have "i \<noteq> j" if "j \<in> set rm" for j
    using that Cons.prems(1) by auto
  then have "\<forall>j\<in>set rm. j < length (sl[i := None]) \<and> sl[i := None] ! j \<noteq> None"
    using Cons.prems(2) by auto
  with Cons.IH [of "sl[i := None]"] Cons.prems(1)
  have "sum_list (map (\<lambda>x. if x = None then 0 else (1::nat))
          (fold (\<lambda>i sl. sl[i := None]) rm (sl[i := None]))) + length rm =
        sum_list (map (\<lambda>x. if x = None then 0 else 1) (sl[i := None]))"
    by simp
  moreover have "sum_list (map (\<lambda>x. if x = None then 0 else (1::nat)) (sl[i := None])) + 1 =
        sum_list (map (\<lambda>x. if x = None then 0 else 1) sl)"
    using Cons.prems(2) by (intro sum_list_clear_slot) auto
  ultimately show ?case by simp
qed

lemma ref_update_contract:
  assumes "distinct rm" and "\<forall>i\<in>set rm. live b i"
  shows "constraint_count (snd (ref_update nf nv rm b)) + length rm = constraint_count b + length nf"
proof -
  have "sum_list (map (\<lambda>x. if x = None then 0 else (1::nat)) (map Some nf)) = length nf"
    by (induction nf) auto
  then show ?thesis
    using fold_clear_slots [of rm "slots b"] assms
    by (simp add: ref_update_def constraint_count_def live_def Let_def)
qed

subsection \<open>Locking\<close>

text \<open>
  \<open>estimate\<close>, \<open>estimateAndRemove\<close>, \<open>getLaserTrack\<close> and \<open>processLoopClosure\<close>
  open with a \<^verbatim>\<open>std::lock_guard\<close> on \<^verbatim>\<open>full_class_mutex_\<close>, so each of their
  calls on the smoother and on the tracks is made with the mutex held, whatever the
  arguments and whether the call returns or aborts.
\<close>

lemma siblings_hold_the_lock:
  "under_lock 0 (emitted s (snd (estimate env new_factors new_values s)))"
  "under_lock 0 (emitted s (snd (estimateAndRemove env new_factors new_values s)))"
  "under_lock 0 (emitted s (snd (getLaserTrack laser_track_id s)))"
  by (simp_all add: estimate_unfold(6) estimateAndRemove_unfold(6) getLaserTrack_def Let_def)

lemma processLoopClosure_holds_the_lock:
  "under_lock 0 (emitted s (snd (processLoopClosure env loop_closure s)))"
proof (cases "fst (processLoopClosure env loop_closure s)")
  case (Inl e)
  then show ?thesis by (simp add: processLoopClosure_abort_state)
next
  case (Inr u)
  then have v: "tracks_exist s loop_closure" "time_bounds_hold env s loop_closure"
    using processLoopClosure_returns_needs_tracks by blast+
  from Inr obtain w where
    "icp_step env s (laser_tracks s ! track_id_a loop_closure)
       (laser_tracks s ! track_id_b loop_closure) loop_closure = Some w"
    using v
    apply (subst (asm) processLoopClosure_def)
    apply (simp add: Let_def track_at_def tracks_exist_def time_bounds_hold_def
        split: option.splits)
    done
  then show ?thesis
    by (simp add: processLoopClosure_accepts [OF v] estimateAndRemove_unfold
        under_lock_track_updates)
qed

text \<open>\<open>registerPrior\<close> has no \<^verbatim>\<open>lock_guard\<close>: for every argument and every
  state it never takes the mutex, and its first call on the smoother is made without
  it.\<close>

lemma registerPrior_never_locks:
  "Mutex_lock \<notin> set (emitted s (snd (registerPrior env new_factors new_values worker_id s))) \<and>
   \<not> under_lock 0 (emitted s (snd (registerPrior env new_factors new_values worker_id s)))"
proof (cases "length (fst (ISAM2_update env new_factors new_values [] (isam2 s))) = 1")
  case True
  then show ?thesis by (simp add: registerPrior_ok(5))
next
  case False
  then show ?thesis by (simp add: registerPrior_abort)
qed

text \<open>
  C1. Claim: every public operation (\<open>processLoopClosure\<close>, \<open>estimate\<close>,
  \<open>estimateAndRemove\<close>, \<open>registerPrior\<close>, \<open>getLaserTrack\<close>) holds the one
  reentrant lock for the duration of the call. The code breaks it in \<open>registerPrior\<close>:
  on a freshly constructed estimator, worker 1 registering one prior makes three updates
  of the smoother and reads the estimate, writes the replaceable-prior slot, and never
  takes the mutex.
\<close>

theorem registerPrior_takes_no_lock:
  "emitted ref_estimator (snd (registerPrior ref_env [ref_prior] [(1, 0)] 1 ref_estimator)) =
     [Smoother_update [ref_prior] [(1, 0)] [],
      Smoother_update [] [] [], Smoother_update [] [] [],
      Smoother_calculateEstimate] \<and>
   \<not> under_lock 0
       (emitted ref_estimator (snd (registerPrior ref_env [ref_prior] [(1, 0)] 1 ref_estimator))) \<and>
   factor_indice_to_remove ref_estimator = 7 \<and>
   factor_indice_to_remove (snd (registerPrior ref_env [ref_prior] [(1, 0)] 1 ref_estimator)) = 0"
  by (simp add: registerPrior_def ref_update_def Let_def case_prod_beta)

subsection \<open>Loop closures that fail validation\<close>

text \<open>
  C2. A candidate that violates a time-bound invariant makes \<open>processLoopClosure\<close>
  abort on a failed \<^verbatim>\<open>CHECK\<close>: its times are not ordered; or track a exists and
  time a lies outside its bounds (whatever the id of track b); or both tracks exist and
  a time lies outside the bounds of its track. At the abort the mutex has been taken and
  nothing else has happened: no update of the smoother was called, and the smoother and
  the tracks are as they were.
\<close>

theorem processLoopClosure_rejects_before_update:
  assumes "\<not> time_a_ns loop_closure < time_b_ns loop_closure \<or>
           (track_id_a loop_closure < length (laser_tracks s) \<and>
            \<not> (getMinTime env (laser_tracks s ! track_id_a loop_closure)
                 \<le> time_a_ns loop_closure \<and>
               time_a_ns loop_closure
                 \<le> getMaxTime env (laser_tracks s ! track_id_a loop_closure))) \<or>
           (tracks_exist s loop_closure \<and> \<not> time_bounds_hold env s loop_closure)"
  shows "fst (processLoopClosure env loop_closure s)
           \<in> {Inl CHECK_LT_failed, Inl CHECK_GE_failed, Inl CHECK_LE_failed} \<and>
         snd (processLoopClosure env loop_closure s) = lock_guard s \<and>
         isam2 (snd (processLoopClosure env loop_closure s)) = isam2 s \<and>
         laser_tracks (snd (processLoopClosure env loop_closure s)) = laser_tracks s \<and>
         emitted s (snd (processLoopClosure env loop_closure s)) = [Mutex_lock] \<and>
         filter is_update (emitted s (snd (processLoopClosure env loop_closure s))) = []"
  by (simp add: processLoopClosure_rejects [OF assms])

theorem processLoopClosure_rejects_before_update_witness:
  "tracks_exist ref_estimator (ref_candidate\<lparr>time_b_ns := 500\<rparr>) \<and>
   \<not> time_bounds_hold ref_env ref_estimator (ref_candidate\<lparr>time_b_ns := 500\<rparr>) \<and>
   fst (processLoopClosure ref_env (ref_candidate\<lparr>time_b_ns := 500\<rparr>) ref_estimator) =
     Inl CHECK_LE_failed \<and>
   isam2 (snd (processLoopClosure ref_env (ref_candidate\<lparr>time_b_ns := 500\<rparr>) ref_estimator)) =
     isam2 ref_estimator \<and>
   emitted ref_estimator
     (snd (processLoopClosure ref_env (ref_candidate\<lparr>time_b_ns := 500\<rparr>) ref_estimator)) =
     [Mutex_lock] \<and>
   track_id_a (ref_candidate\<lparr>time_a_ns := - 5, track_id_b := 9\<rparr>)
     < length (laser_tracks ref_estimator) \<and>
   \<not> getMinTime ref_env
       (laser_tracks ref_estimator ! track_id_a (ref_candidate\<lparr>time_a_ns := - 5, track_id_b := 9\<rparr>))
     \<le> time_a_ns (ref_candidate\<lparr>time_a_ns := - 5, track_id_b := 9\<rparr>) \<and>
   \<not> tracks_exist ref_estimator (ref_candidate\<lparr>time_a_ns := - 5, track_id_b := 9\<rparr>) \<and>
   fst (processLoopClosure ref_env (ref_candidate\<lparr>time_a_ns := - 5, track_id_b := 9\<rparr>)
          ref_estimator) = Inl CHECK_GE_failed \<and>
   isam2 (snd (processLoopClosure ref_env (ref_candidate\<lparr>time_a_ns := - 5, track_id_b := 9\<rparr>)
          ref_estimator)) = isam2 ref_estimator \<and>
   emitted ref_estimator
     (snd (processLoopClosure ref_env (ref_candidate\<lparr>time_a_ns := - 5, track_id_b := 9\<rparr>)
          ref_estimator)) = [Mutex_lock]"
proof -
  have h: "tracks_exist ref_estimator (ref_candidate\<lparr>time_b_ns := 500\<rparr>) \<and>
           \<not> time_bounds_hold ref_env ref_estimator (ref_candidate\<lparr>time_b_ns := 500\<rparr>)"
    by (simp add: tracks_exist_def time_bounds_hold_def)
  have e: "fst (processLoopClosure ref_env (ref_candidate\<lparr>time_b_ns := 500\<rparr>) ref_estimator) =
     Inl CHECK_LE_failed"
    using h by (simp add: processLoopClosure_rejects)
  have g: "track_id_a (ref_candidate\<lparr>time_a_ns := - 5, track_id_b := 9\<rparr>)
             < length (laser_tracks ref_estimator) \<and>
           \<not> getMinTime ref_env
               (laser_tracks ref_estimator
                  ! track_id_a (ref_candidate\<lparr>time_a_ns := - 5, track_id_b := 9\<rparr>))
             \<le> time_a_ns (ref_candidate\<lparr>time_a_ns := - 5, track_id_b := 9\<rparr>) \<and>
           \<not> tracks_exist ref_estimator (ref_candidate\<lparr>time_a_ns := - 5, track_id_b := 9\<rparr>)"
    by (simp add: tracks_exist_def)
  have f: "fst (processLoopClosure ref_env (ref_candidate\<lparr>time_a_ns := - 5, track_id_b := 9\<rparr>)
          ref_estimator) = Inl CHECK_GE_failed"
    using g by (simp add: processLoopClosure_rejects)
  show ?thesis
    using h e g f
      processLoopClosure_rejects_before_update [where env = ref_env
        and s = ref_estimator and loop_closure = "ref_candidate\<lparr>time_b_ns := 500\<rparr>"]
      processLoopClosure_rejects_before_update [where env = ref_env
        and s = ref_estimator
        and loop_closure = "ref_candidate\<lparr>time_a_ns := - 5, track_id_b := 9\<rparr>"]
    by simp
qed

subsection \<open>Construction\<close>

text \<open>
  C3, as amended. Construction creates the smoother with a fixed relinearization policy,
  skip count 1 and threshold 0.001, for every value of the estimation parameters: the
  policy is not read from the construction-time configuration.
\<close>

theorem constructor_relinearization_policy_is_fixed:
  "isam2 (IncrementalEstimator_new env parameters n_workers indeterminate) =
     new_ISAM2 env \<lparr>relinearizeSkip = 1, relinearizeThreshold = 1 / 1000\<rparr>"
  by (simp add: IncrementalEstimator_new_def)

text \<open>C3 as stated fails: constructed from parameters that ask for skip count 10 and
  threshold 0.1, the reference backend is created with neither.\<close>

theorem constructor_ignores_configured_relinearization:
  "\<not> (relinearizeSkip (policy (isam2 ref_estimator)) = relinearize_skip ref_params \<and>
      relinearizeThreshold (policy (isam2 ref_estimator)) = relinearize_threshold ref_params)"
  by (simp add: ref_params_def)

subsection \<open>Constraint counts\<close>

text \<open>
  C4, as amended. Let the backend keep the contract that an update which removes
  distinct indices, each naming a constraint it holds, and adds new constraints changes
  its constraint count by the number added less the number removed. Then \<open>estimate\<close>
  changes the count by exactly the number of new constraints, and \<open>estimateAndRemove\<close>
  changes it by that number less one whenever the index in the replaceable-prior slot
  names a constraint the backend holds. \<open>estimate\<close> asks for no removal, and
  \<open>estimateAndRemove\<close> for the removal of exactly one index, the one in the slot.
\<close>

theorem constraint_count_change:
  fixes count :: "'b \<Rightarrow> nat" and alive :: "'b \<Rightarrow> nat \<Rightarrow> bool"
  assumes contract: "\<And>nf nv rm b. distinct rm \<Longrightarrow> \<forall>i\<in>set rm. alive b i \<Longrightarrow>
      count (snd (ISAM2_update env nf nv rm b)) + length rm = count b + length nf"
  shows "int (count (isam2 (snd (estimate env new_factors new_values s)))) - int (count (isam2 s))
           = int (length new_factors) \<and>
         (alive (isam2 s) (factor_indice_to_remove s) \<longrightarrow>
          int (count (isam2 (snd (estimateAndRemove env new_factors new_values s))))
            - int (count (isam2 s)) = int (length new_factors) - 1) \<and>
         filter is_update (emitted s (snd (estimate env new_factors new_values s))) =
           [Smoother_update new_factors new_values [],
            Smoother_update [] (empty_Values env) [],
            Smoother_update [] (empty_Values env) []] \<and>
         filter is_update (emitted s (snd (estimateAndRemove env new_factors new_values s))) =
           [Smoother_update new_factors new_values [factor_indice_to_remove s],
            Smoother_update [] (empty_Values env) [],
            Smoother_update [] (empty_Values env) []]"
proof -
  have noop: "count (snd (ISAM2_update env [] nv [] b)) = count b" for nv b
    using contract [of "[]" b "[]" nv] by simp
  have plain: "count (snd (ISAM2_update env nf nv [] b)) = count b + length nf" for nf nv b
    using contract [of "[]" b nf nv] by simp
  have e: "count (isam2 (snd (estimate env new_factors new_values s))) =
           count (isam2 s) + length new_factors"
    by (simp add: estimate_unfold noop plain)
  have r: "count (isam2 (snd (estimateAndRemove env new_factors new_values s))) + 1 =
           count (isam2 s) + length new_factors"
    if "alive (isam2 s) (factor_indice_to_remove s)"
    using contract [of "[factor_indice_to_remove s]" "isam2 s" new_factors new_values] that
    by (simp add: estimateAndRemove_unfold noop)
  have c: "filter is_update (emitted s (snd (estimate env new_factors new_values s))) =
           [Smoother_update new_factors new_values [],
            Smoother_update [] (empty_Values env) [],
            Smoother_update [] (empty_Values env) []]"
    by (simp add: estimate_unfold(6))
  have d: "filter is_update (emitted s (snd (estimateAndRemove env new_factors new_values s))) =
           [Smoother_update new_factors new_values [factor_indice_to_remove s],
            Smoother_update [] (empty_Values env) [],
            Smoother_update [] (empty_Values env) []]"
    by (simp add: estimateAndRemove_unfold(6))
  show ?thesis using e r c d by auto
qed

theorem constraint_count_change_witness:
  "live (isam2 ref_after_prior) (factor_indice_to_remove ref_after_prior) \<and>
   int (constraint_count (isam2 (snd (estimate ref_env [ref_prior, ref_prior] [] ref_after_prior))))
     - int (constraint_count (isam2 ref_after_prior)) = 2 \<and>
   int (constraint_count (isam2 (snd (estimateAndRemove ref_env [ref_prior, ref_prior] [] ref_after_prior))))
     - int (constraint_count (isam2 ref_after_prior)) = 1"
proof -
  have c: "\<And>nf nv rm b. distinct rm \<Longrightarrow> \<forall>i\<in>set rm. live b i \<Longrightarrow>
      constraint_count (snd (ISAM2_update ref_env nf nv rm b)) + length rm =
      constraint_count b + length nf"
    by (simp add: ref_update_contract)
  have l: "live (isam2 ref_after_prior) (factor_indice_to_remove ref_after_prior)"
    by (simp add: live_def)
  show ?thesis
    using constraint_count_change [where alive = live and env = ref_env
        and count = constraint_count and new_factors = "[ref_prior, ref_prior]"
        and new_values = "[]" and s = ref_after_prior, OF c] l
    by simp
qed

text \<open>C4 as stated fails: the slot keeps its index after the removal, so a second
  \<open>estimateAndRemove\<close> in a row names a constraint that is gone, removes nothing, and
  the count grows by the full number of new constraints.\<close>

theorem second_dedupe_removes_nothing:
  "int (constraint_count (isam2 (snd (estimateAndRemove ref_env [ref_prior] [] ref_after_dedupe))))
     - int (constraint_count (isam2 ref_after_dedupe)) \<noteq> int (length [ref_prior]) - 1"
  by (simp add: estimateAndRemove_unfold ref_update_def constraint_count_def)

subsection \<open>The replaceable-prior slot\<close>

text \<open>
  C5. \<open>estimate\<close>, \<open>estimateAndRemove\<close>, \<open>processLoopClosure\<close> and
  \<open>getLaserTrack\<close> leave the replaceable-prior slot as it was, and so does
  \<open>registerPrior\<close> called with a worker id other than 1; the slot changes only in a
  \<open>registerPrior\<close> call of worker 1.
\<close>

theorem replaceable_prior_slot_frame:
  "factor_indice_to_remove (snd (estimate env new_factors new_values s)) =
     factor_indice_to_remove s \<and>
   factor_indice_to_remove (snd (estimateAndRemove env new_factors new_values s)) =
     factor_indice_to_remove s \<and>
   factor_indice_to_remove (snd (processLoopClosure env loop_closure s)) =
     factor_indice_to_remove s \<and>
   factor_indice_to_remove (snd (getLaserTrack laser_track_id s)) =
     factor_indice_to_remove s \<and>
   (worker_id \<noteq> 1 \<longrightarrow>
      factor_indice_to_remove (snd (registerPrior env new_factors new_values worker_id s)) =
        factor_indice_to_remove s)"
proof -
  have "factor_indice_to_remove (snd (registerPrior env new_factors new_values worker_id s)) =
        factor_indice_to_remove s" if "worker_id \<noteq> 1"
  proof (cases "length (fst (ISAM2_update env new_factors new_values [] (isam2 s))) = 1")
    case True
    then show ?thesis using that by (simp add: registerPrior_ok(4))
  next
    case False
    then show ?thesis by (simp add: registerPrior_abort)
  qed
  then show ?thesis
    by (simp add: estimate_unfold(4) estimateAndRemove_unfold(4) processLoopClosure_slot
        getLaserTrack_slot)
qed

theorem replaceable_prior_slot_frame_witness:
  "(2::nat) \<noteq> 1 \<and>
   factor_indice_to_remove (snd (registerPrior ref_env [ref_prior] [] 2 ref_after_dedupe)) =
     factor_indice_to_remove ref_after_dedupe \<and>
   factor_indice_to_remove (snd (registerPrior ref_env [ref_prior] [] 1 ref_after_dedupe)) = 2 \<and>
   factor_indice_to_remove ref_after_dedupe = 0"
proof -
  have "factor_indice_to_remove (snd (registerPrior ref_env [ref_prior] [] 1 ref_after_dedupe)) = 2"
    by (simp add: registerPrior_ok(4) ref_update_def)
  then show ?thesis
    using replaceable_prior_slot_frame [where env = ref_env and worker_id = 2
        and new_factors = "[ref_prior]" and new_values = "[]" and s = ref_after_dedupe]
    by simp
qed

text \<open>
  C6. When the update reports a number of newly assigned constraint indices other than
  one, \<open>registerPrior\<close> aborts on the failed \<^verbatim>\<open>CHECK_EQ\<close>, after that one update
  and before the slot is written: the slot is as it was.
\<close>

theorem registerPrior_checks_before_slot_write:
  assumes "length (fst (ISAM2_update env new_factors new_values [] (isam2 s))) \<noteq> 1"
  shows "fst (registerPrior env new_factors new_values worker_id s) = Inl CHECK_EQ_failed \<and>
         factor_indice_to_remove (snd (registerPrior env new_factors new_values worker_id s)) =
           factor_indice_to_remove s \<and>
         emitted s (snd (registerPrior env new_factors new_values worker_id s)) =
           [Smoother_update new_factors new_values []] \<and>
         isam2 (snd (registerPrior env new_factors new_values worker_id s)) =
           snd (ISAM2_update env new_factors new_values [] (isam2 s))"
  using assms by (simp add: registerPrior_abort)

theorem registerPrior_checks_before_slot_write_witness:
  "length (fst (ISAM2_update ref_env [ref_prior, ref_prior] [] [] (isam2 ref_after_dedupe))) = 2 \<and>
   fst (registerPrior ref_env [ref_prior, ref_prior] [] 1 ref_after_dedupe) = Inl CHECK_EQ_failed \<and>
   factor_indice_to_remove (snd (registerPrior ref_env [ref_prior, ref_prior] [] 1 ref_after_dedupe))
     = 0 \<and>
   length (fst (ISAM2_update ref_env [] [] [] (isam2 ref_after_dedupe))) = 0 \<and>
   fst (registerPrior ref_env [] [] 1 ref_after_dedupe) = Inl CHECK_EQ_failed \<and>
   factor_indice_to_remove (snd (registerPrior ref_env [] [] 1 ref_after_dedupe)) = 0"
proof -
  have two: "length (fst (ISAM2_update ref_env [ref_prior, ref_prior] [] [] (isam2 ref_after_dedupe))) = 2"
    by (simp add: ref_update_def)
  have none: "length (fst (ISAM2_update ref_env [] [] [] (isam2 ref_after_dedupe))) = 0"
    by (simp add: ref_update_def)
  show ?thesis
    using two none
      registerPrior_checks_before_slot_write [where env = ref_env
        and new_factors = "[ref_prior, ref_prior]" and new_values = "[]"
        and s = ref_after_dedupe and worker_id = 1]
      registerPrior_checks_before_slot_write [where env = ref_env
        and new_factors = "[]" and new_values = "[]"
        and s = ref_after_dedupe and worker_id = 1]
    by simp
qed

subsection \<open>Loop closures that pass validation\<close>

text \<open>
  C7. For a candidate whose tracks exist and whose times are within bounds, with the
  refinement switched off or its matcher returning a solution, \<open>processLoopClosure\<close>
  submits exactly one constraint, in the first of its three updates: the expression
  factor whose expression is the inverse of the pose of track a at time a composed with
  the pose of track b at time b, whose measurement is the candidate's transform (the
  matcher's solution when the refinement is on), and whose noise model is the
  estimator's loop-closure noise model, which the call leaves as it was.
\<close>

theorem processLoopClosure_submits_one_relative_factor:
  assumes "tracks_exist s loop_closure" and "time_bounds_hold env s loop_closure"
    and "do_icp_step_on_loop_closures (params s) \<longrightarrow>
         icp_compute env (icp s)
           (buildSubMapAroundTime env (laser_tracks s ! track_id_b loop_closure)
              (time_b_ns loop_closure) (loop_closures_sub_maps_radius (params s)))
           (buildSubMapAroundTime env (laser_tracks s ! track_id_a loop_closure)
              (time_a_ns loop_closure) (loop_closures_sub_maps_radius (params s)))
           (getTransformationMatrix env (T_a_b loop_closure)) = Some icp_solution"
  shows "fst (processLoopClosure env loop_closure s) = Inr () \<and>
         filter is_update (emitted s (snd (processLoopClosure env loop_closure s))) =
           [Smoother_update
              [ExpressionFactor (loop_closure_noise_model s)
                 (if do_icp_step_on_loop_closures (params s)
                  then convertTransformationMatrixToSE3 env icp_solution
                  else T_a_b loop_closure)
                 (Compose
                    (Inverse (getValueExpression env (laser_tracks s ! track_id_a loop_closure)
                       (time_a_ns loop_closure)))
                    (getValueExpression env (laser_tracks s ! track_id_b loop_closure)
                       (time_b_ns loop_closure)))]
              (empty_Values env) [factor_indice_to_remove s],
            Smoother_update [] (empty_Values env) [],
            Smoother_update [] (empty_Values env) []] \<and>
         loop_closure_noise_model (snd (processLoopClosure env loop_closure s)) =
           loop_closure_noise_model s"
  by (simp add: processLoopClosure_valid(1,4,5) [OF assms])

theorem processLoopClosure_submits_one_relative_factor_witness:
  "tracks_exist ref_refining ref_candidate \<and>
   time_bounds_hold ref_env ref_refining ref_candidate \<and>
   do_icp_step_on_loop_closures (params ref_refining) \<and>
   icp_compute ref_env (icp ref_refining)
     (buildSubMapAroundTime ref_env (laser_tracks ref_refining ! track_id_b ref_candidate)
        (time_b_ns ref_candidate) (loop_closures_sub_maps_radius (params ref_refining)))
     (buildSubMapAroundTime ref_env (laser_tracks ref_refining ! track_id_a ref_candidate)
        (time_a_ns ref_candidate) (loop_closures_sub_maps_radius (params ref_refining)))
     (getTransformationMatrix ref_env (T_a_b ref_candidate)) = Some 1 \<and>
   fst (processLoopClosure ref_env ref_candidate ref_refining) = Inr () \<and>
   filter is_update (emitted ref_refining
       (snd (processLoopClosure ref_env ref_candidate ref_refining))) =
     [Smoother_update
        [ExpressionFactor (Robust (Cauchy 1) (Diagonal_Sigmas [1, 1, 1, 1, 1, 1])) 1
           (Compose (Inverse (Leaf (0, 10))) (Leaf (1, 50)))]
        [] [0],
      Smoother_update [] [] [],
      Smoother_update [] [] []] \<and>
   tracks_exist ref_after_prior ref_candidate \<and>
   time_bounds_hold ref_env ref_after_prior ref_candidate \<and>
   \<not> do_icp_step_on_loop_closures (params ref_after_prior) \<and>
   filter is_update (emitted ref_after_prior
       (snd (processLoopClosure ref_env ref_candidate ref_after_prior))) =
     [Smoother_update
        [ExpressionFactor (Robust (Cauchy 1) (Diagonal_Sigmas [1, 1, 1, 1, 1, 1])) 0
           (Compose (Inverse (Leaf (0, 10))) (Leaf (1, 50)))]
        [] [0],
      Smoother_update [] [] [],
      Smoother_update [] [] []]"
  using processLoopClosure_submits_one_relative_factor [where env = ref_env
      and s = ref_refining and loop_closure = ref_candidate and icp_solution = 1]
    processLoopClosure_submits_one_relative_factor [where env = ref_env
      and s = ref_after_prior and loop_closure = ref_candidate and icp_solution = 1]
  by (simp add: ref_params_def)

text \<open>
  C8. For such a candidate \<open>processLoopClosure\<close> returns. The smoother it leaves is
  the one after the three updates, the first of which adds the loop-closure constraint
  and removes the index in the slot. After the submission the call runs
  \<^verbatim>\<open>updateFromGTSAMValues\<close> with the estimate of that smoother once on every track
  of the collection, in order, not only on the two tracks of the candidate.
\<close>

theorem processLoopClosure_updates_every_track:
  assumes "tracks_exist s loop_closure" and "time_bounds_hold env s loop_closure"
    and "do_icp_step_on_loop_closures (params s) \<longrightarrow>
         icp_compute env (icp s)
           (buildSubMapAroundTime env (laser_tracks s ! track_id_b loop_closure)
              (time_b_ns loop_closure) (loop_closures_sub_maps_radius (params s)))
           (buildSubMapAroundTime env (laser_tracks s ! track_id_a loop_closure)
              (time_a_ns loop_closure) (loop_closures_sub_maps_radius (params s)))
           (getTransformationMatrix env (T_a_b loop_closure)) = Some icp_solution"
  shows "fst (processLoopClosure env loop_closure s) = Inr () \<and>
         isam2 (snd (processLoopClosure env loop_closure s)) =
           snd (ISAM2_update env [] (empty_Values env) []
             (snd (ISAM2_update env [] (empty_Values env) []
               (snd (ISAM2_update env
                  [ExpressionFactor (loop_closure_noise_model s)
                     (if do_icp_step_on_loop_closures (params s)
                      then convertTransformationMatrixToSE3 env icp_solution
                      else T_a_b loop_closure)
                     (Compose
                        (Inverse (getValueExpression env
                           (laser_tracks s ! track_id_a loop_closure) (time_a_ns loop_closure)))
                        (getValueExpression env
                           (laser_tracks s ! track_id_b loop_closure) (time_b_ns loop_closure)))]
                  (empty_Values env) [factor_indice_to_remove s] (isam2 s)))))) \<and>
         laser_tracks (snd (processLoopClosure env loop_closure s)) =
           map (updateFromGTSAMValues env
                  (ISAM2_calculateEstimate env (isam2 (snd (processLoopClosure env loop_closure s)))))
               (laser_tracks s) \<and>
         filter is_track_update (emitted s (snd (processLoopClosure env loop_closure s))) =
           map (\<lambda>i. Track_updateFromGTSAMValues i
                  (ISAM2_calculateEstimate env (isam2 (snd (processLoopClosure env loop_closure s)))))
               [0..<length (laser_tracks s)] \<and>
         emitted s (snd (processLoopClosure env loop_closure s)) =
           [Mutex_lock, Mutex_lock,
            Smoother_update
              [ExpressionFactor (loop_closure_noise_model s)
                 (if do_icp_step_on_loop_closures (params s)
                  then convertTransformationMatrixToSE3 env icp_solution
                  else T_a_b loop_closure)
                 (Compose
                    (Inverse (getValueExpression env
                       (laser_tracks s ! track_id_a loop_closure) (time_a_ns loop_closure)))
                    (getValueExpression env
                       (laser_tracks s ! track_id_b loop_closure) (time_b_ns loop_closure)))]
              (empty_Values env) [factor_indice_to_remove s],
            Smoother_update [] (empty_Values env) [], Smoother_update [] (empty_Values env) [],
            Smoother_calculateEstimate, Mutex_unlock] @
           map (\<lambda>i. Track_updateFromGTSAMValues i
                  (ISAM2_calculateEstimate env (isam2 (snd (processLoopClosure env loop_closure s)))))
               [0..<length (laser_tracks s)] @
           [Mutex_unlock]"
  using processLoopClosure_valid(2) [OF assms] processLoopClosure_valid(3) [OF assms]
  by (simp add: processLoopClosure_valid(1,5) [OF assms])

theorem processLoopClosure_updates_every_track_witness:
  "tracks_exist ref_refining ref_candidate \<and>
   time_bounds_hold ref_env ref_refining ref_candidate \<and>
   do_icp_step_on_loop_closures (params ref_refining) \<and>
   icp_compute ref_env (icp ref_refining)
     (buildSubMapAroundTime ref_env (laser_tracks ref_refining ! track_id_b ref_candidate)
        (time_b_ns ref_candidate) (loop_closures_sub_maps_radius (params ref_refining)))
     (buildSubMapAroundTime ref_env (laser_tracks ref_refining ! track_id_a ref_candidate)
        (time_a_ns ref_candidate) (loop_closures_sub_maps_radius (params ref_refining)))
     (getTransformationMatrix ref_env (T_a_b ref_candidate)) = Some 1 \<and>
   ISAM2_calculateEstimate ref_env (isam2 ref_refining) = [(1, 1)] \<and>
   fst (processLoopClosure ref_env ref_candidate ref_refining) = Inr () \<and>
   isam2 (snd (processLoopClosure ref_env ref_candidate ref_refining)) =
     \<lparr>policy = \<lparr>relinearizeSkip = 1, relinearizeThreshold = 1 / 1000\<rparr>,
      slots = [None,
        Some (ExpressionFactor (Robust (Cauchy 1) (Diagonal_Sigmas [1, 1, 1, 1, 1, 1])) 1
           (Compose (Inverse (Leaf (0, 10))) (Leaf (1, 50))))],
      variables = [(1, 0)]\<rparr> \<and>
   laser_tracks (snd (processLoopClosure ref_env ref_candidate ref_refining)) =
     [\<lparr>track_id = 0, min_time = 0, max_time = 100, estimate_received = [(1, 2)]\<rparr>,
      \<lparr>track_id = 1, min_time = 0, max_time = 100, estimate_received = [(1, 2)]\<rparr>] \<and>
   filter is_track_update (emitted ref_refining
       (snd (processLoopClosure ref_env ref_candidate ref_refining))) =
     [Track_updateFromGTSAMValues 0 [(1, 2)], Track_updateFromGTSAMValues 1 [(1, 2)]]"
  using processLoopClosure_updates_every_track [where env = ref_env
      and s = ref_refining and loop_closure = ref_candidate and icp_solution = 1]
  by (simp add: ref_update_def ref_params_def
      upt_rec [of 0] upt_rec [of 1] upt_rec [of 2] numeral_2_eq_2)

subsection \<open>Plain updates\<close>

text \<open>
  C9. For every batch, \<open>estimate\<close> submits the batch in one update that removes
  nothing, makes exactly two more updates with no arguments, then computes the estimate
  and returns it; it has no check that could abort.
\<close>

theorem estimate_three_updates_then_estimate:
  "fst (estimate env new_factors new_values s) =
     Inr (ISAM2_calculateEstimate env (isam2 (snd (estimate env new_factors new_values s)))) \<and>
   emitted s (snd (estimate env new_factors new_values s)) =
     [Mutex_lock, Smoother_update new_factors new_values [],
      Smoother_update [] (empty_Values env) [], Smoother_update [] (empty_Values env) [],
      Smoother_calculateEstimate, Mutex_unlock] \<and>
   isam2 (snd (estimate env new_factors new_values s)) =
     snd (ISAM2_update env [] (empty_Values env) []
       (snd (ISAM2_update env [] (empty_Values env) []
         (snd (ISAM2_update env new_factors new_values [] (isam2 s))))))"
  using estimate_unfold(1) [of env new_factors new_values s]
  by (simp add: estimate_unfold(2,6))

subsection \<open>Track ids\<close>

text \<open>
  C10. \<open>processLoopClosure\<close> indexes the track collection at the candidate's two track
  ids without a bounds check. The lookup fails exactly when the times are ordered and
  either the first id is out of range, or the first track's bounds hold and the second
  id is out of range; it cannot fail when both ids are in range, and the call returns
  only if they are.
\<close>

theorem processLoopClosure_track_lookup_unchecked:
  "(fst (processLoopClosure env loop_closure s) = Inl Index_out_of_range) =
     (time_a_ns loop_closure < time_b_ns loop_closure \<and>
      (\<not> track_id_a loop_closure < length (laser_tracks s) \<or>
       (track_id_a loop_closure < length (laser_tracks s) \<and>
        getMinTime env (laser_tracks s ! track_id_a loop_closure) \<le> time_a_ns loop_closure \<and>
        time_a_ns loop_closure \<le> getMaxTime env (laser_tracks s ! track_id_a loop_closure) \<and>
        \<not> track_id_b loop_closure < length (laser_tracks s)))) \<and>
   (tracks_exist s loop_closure \<longrightarrow>
      fst (processLoopClosure env loop_closure s) \<noteq> Inl Index_out_of_range) \<and>
   ((\<exists>u. fst (processLoopClosure env loop_closure s) = Inr u) \<longrightarrow> tracks_exist s loop_closure)"
proof -
  have "tracks_exist s loop_closure \<longrightarrow>
      fst (processLoopClosure env loop_closure s) \<noteq> Inl Index_out_of_range"
    by (simp add: processLoopClosure_index_error tracks_exist_def)
  moreover have "(\<exists>u. fst (processLoopClosure env loop_closure s) = Inr u) \<longrightarrow>
      tracks_exist s loop_closure"
    using processLoopClosure_returns_needs_tracks by blast
  ultimately show ?thesis
    using processLoopClosure_index_error [of env loop_closure s] by blast
qed

theorem processLoopClosure_track_lookup_unchecked_witness:
  "fst (processLoopClosure ref_env (ref_candidate\<lparr>track_id_b := 2\<rparr>) ref_after_prior) =
     Inl Index_out_of_range \<and>
   fst (processLoopClosure ref_env (ref_candidate\<lparr>track_id_a := 7\<rparr>) ref_after_prior) =
     Inl Index_out_of_range \<and>
   tracks_exist ref_after_prior ref_candidate \<and>
   fst (processLoopClosure ref_env ref_candidate ref_after_prior) = Inr ()"
proof -
  have ok: "fst (processLoopClosure ref_env ref_candidate ref_after_prior) = Inr ()"
    by (simp add: processLoopClosure_accepts [where u = ref_candidate])
  show ?thesis
    using ok
      processLoopClosure_track_lookup_unchecked [where env = ref_env
        and loop_closure = "ref_candidate\<lparr>track_id_b := 2\<rparr>" and s = ref_after_prior]
      processLoopClosure_track_lookup_unchecked [where env = ref_env
        and loop_closure = "ref_candidate\<lparr>track_id_a := 7\<rparr>" and s = ref_after_prior]
      processLoopClosure_track_lookup_unchecked [where env = ref_env
        and loop_closure = ref_candidate and s = ref_after_prior]
    by simp
qed

end